theory Spec2Isabelle
  imports Complex_Main "HOL-Library.AList"
begin

section \<open>Python values used by \<open>openmdao/devtools/profile.py\<close>\<close>

text \<open>
  Elapsed times are Python floats. They are modelled as real numbers: sums, differences
  and quotients are exact, and a division whose divisor is zero raises
  \<open>ZeroDivisionError\<close>, as Python's float division does. Counts are Python's
  unbounded integers. Rounding, overflow to infinity, underflow to zero and the
  non-finite literals \<open>inf\<close> and \<open>nan\<close> are outside this model.

  An exception is a value of \<open>py_error\<close>. A \<open>ValueError\<close> carries no
  more than the number of fields found by a failed unpacking (Python's message gives it
  when there are too few and omits it when there are too many), or the literal that
  \<open>int()\<close> or \<open>float()\<close> rejected. A \<open>KeyError\<close> carries the
  missing key.
\<close>

datatype value_error = Unpack nat | Int_literal string | Float_literal string

datatype py_error =
    ValueError value_error
  | KeyError string
  | IndexError
  | ZeroDivisionError
  | RuntimeError string
  | IOError string

text \<open>A dict is an association list in insertion order with distinct keys:
  \<open>d[k] = v\<close> is \<open>AList.update k v d\<close> (an existing key keeps its place, a new key
  goes last), \<open>k in d\<close> is \<open>map_of d k \<noteq> None\<close>, and \<open>d[k]\<close> raises
  \<open>KeyError\<close> on a missing key.\<close>

type_synonym 'v dict = "(string \<times> 'v) list"

definition getitem :: "'v dict \<Rightarrow> string \<Rightarrow> py_error + 'v" where
  "getitem d k = (case map_of d k of None \<Rightarrow> Inl (KeyError k) | Some v \<Rightarrow> Inr v)"

definition py_div :: "real \<Rightarrow> real \<Rightarrow> py_error + real" where
  "py_div a b = (if b = 0 then Inl ZeroDivisionError else Inr (a / b))"

subsection \<open>Strings\<close>

text \<open>\<open>s.split(c)\<close> for a one-character separator: never empty.\<close>

fun split_at :: "char \<Rightarrow> string \<Rightarrow> string list" where
  "split_at c [] = [[]]"
| "split_at c (x # xs) =
     (if x = c then [] # split_at c xs
      else (x # hd (split_at c xs)) # tl (split_at c xs))"

text \<open>\<open>sep.join(parts)\<close>.\<close>

fun join :: "string \<Rightarrow> string list \<Rightarrow> string" where
  "join sep [] = []"
| "join sep [p] = p"
| "join sep (p # q # ps) = p @ sep @ join sep (q # ps)"

text \<open>\<open>s.rsplit(c, 1)\<close>: the string cut at its last \<open>c\<close>, or the string alone.\<close>

definition rsplit1 :: "char \<Rightarrow> string \<Rightarrow> string list" where
  "rsplit1 c s =
     (if c \<in> set s
      then [rev (tl (dropWhile (\<lambda>x. x \<noteq> c) (rev s))), rev (takeWhile (\<lambda>x. x \<noteq> c) (rev s))]
      else [s])"

text \<open>Whitespace as \<open>str.split()\<close>, \<open>int()\<close> and \<open>float()\<close> see it in ASCII:
  tab, line feed, vertical tab, form feed, carriage return, the four separators
  0x1c to 0x1f, and space.\<close>

definition is_space :: "char \<Rightarrow> bool" where
  "is_space c = (let n = (of_char c :: nat) in (9 \<le> n \<and> n \<le> 13) \<or> (28 \<le> n \<and> n \<le> 32))"

text \<open>\<open>s.split()\<close>: the maximal runs of non-whitespace characters. \<open>cur\<close> is the
  run being read.\<close>

fun split_ws_from :: "string \<Rightarrow> string \<Rightarrow> string list" where
  "split_ws_from cur [] = (if cur = [] then [] else [cur])"
| "split_ws_from cur (x # xs) =
     (if is_space x
      then (if cur = [] then split_ws_from [] xs else cur # split_ws_from [] xs)
      else split_ws_from (cur @ [x]) xs)"

definition split_ws :: "string \<Rightarrow> string list" where
  "split_ws s = split_ws_from [] s"

definition strip :: "string \<Rightarrow> string" where
  "strip s = rev (dropWhile is_space (rev (dropWhile is_space s)))"

definition lstrip :: "char \<Rightarrow> string \<Rightarrow> string" where
  "lstrip c s = dropWhile (\<lambda>x. x = c) s"

definition is_digit :: "char \<Rightarrow> bool" where
  "is_digit c = (let n = (of_char c :: nat) in 48 \<le> n \<and> n \<le> 57)"

definition digits_val :: "string \<Rightarrow> nat" where
  "digits_val ds = foldl (\<lambda>a c. 10 * a + ((of_char c :: nat) - 48)) 0 ds"

definition sign_split :: "string \<Rightarrow> bool \<times> string" where
  "sign_split t =
     (case t of
        [] \<Rightarrow> (False, [])
      | c # r \<Rightarrow> if c = CHR ''-'' then (True, r)
                 else if c = CHR ''+'' then (False, r) else (False, t))"

text \<open>\<open>int(s)\<close> in base 10: surrounding whitespace, an optional sign, one or more
  decimal digits (digit-group underscores, which later Python versions accept, are not
  part of the modelled grammar).\<close>

definition py_int :: "string \<Rightarrow> py_error + int" where
  "py_int s =
     (let (neg, body) = sign_split (strip s) in
      if body \<noteq> [] \<and> list_all is_digit body
      then Inr (if neg then - int (digits_val body) else int (digits_val body))
      else Inl (ValueError (Int_literal s)))"

text \<open>\<open>float(s)\<close> on decimal literals: surrounding whitespace, an optional sign, digits
  with an optional point (at least one digit on one side of it), an optional exponent.\<close>

definition scale10 :: "real \<Rightarrow> int \<Rightarrow> real" where
  "scale10 x e = (if 0 \<le> e then x * 10 ^ nat e else x / 10 ^ nat (- e))"

definition py_float :: "string \<Rightarrow> py_error + real" where
  "py_float s =
     (let (neg, body) = sign_split (strip s);
          not_e = (\<lambda>c. c \<noteq> CHR ''e'' \<and> c \<noteq> CHR ''E'');
          mant = takeWhile not_e body;
          ex = dropWhile not_e body;
          ip = takeWhile (\<lambda>c. c \<noteq> CHR ''.'') mant;
          fp = (case dropWhile (\<lambda>c. c \<noteq> CHR ''.'') mant of [] \<Rightarrow> [] | d # r \<Rightarrow> r);
          (eneg, ebody) = (case ex of [] \<Rightarrow> (False, ''0'') | e # r \<Rightarrow> sign_split r);
          m = real (digits_val ip) + real (digits_val fp) / 10 ^ length fp;
          v = scale10 m (if eneg then - int (digits_val ebody) else int (digits_val ebody))
      in if list_all is_digit ip \<and> list_all is_digit fp \<and> \<not> (ip = [] \<and> fp = [])
            \<and> ebody \<noteq> [] \<and> list_all is_digit ebody
         then Inr (if neg then - v else v)
         else Inl (ValueError (Float_literal s)))"

text \<open>\<open>os.path.splitext(p)\<close> with \<open>/\<close> as the separator: the extension starts at
  the last dot of the last path component, unless only dots stand before it there.\<close>

definition splitext :: "string \<Rightarrow> string \<times> string" where
  "splitext p =
     (let base = rev (takeWhile (\<lambda>c. c \<noteq> CHR ''/'') (rev p));
          ext = CHR ''.'' # rev (takeWhile (\<lambda>c. c \<noteq> CHR ''.'') (rev base));
          pre = rev (tl (dropWhile (\<lambda>c. c \<noteq> CHR ''.'') (rev base)))
      in if CHR ''.'' \<in> set base \<and> list_ex (\<lambda>c. c \<noteq> CHR ''.'') pre
         then (take (length p - length ext) p, ext)
         else (p, []))"

section \<open>Profile nodes\<close>

text \<open>The object a node was recorded on: its identity, the classes it is an instance
  of, and its \<open>pathname\<close> attribute when it has one.\<close>

record pyobj =
  obj_id :: nat
  obj_classes :: "string list"
  pathname :: "string option"

text \<open>The dict \<open>_prof_node\<close> builds. \<open>process_profile\<close> deletes the keys \<open>obj\<close>
  and \<open>child_time\<close> from the nodes it returns: those are \<open>out_node\<close>s.\<close>

record out_node =
  name :: string
  short_name :: string
  time :: real
  count :: int
  tot_time :: real
  tot_count :: int
  pct_total :: real
  tot_pct_total :: real
  pct_parent :: real

record node = out_node +
  child_time :: real
  obj :: "pyobj option"

text \<open>\<open>_prof_node(parts, obj)\<close>; \<open>parts[-1]\<close> raises on an empty list.\<close>

definition prof_node :: "string list \<Rightarrow> pyobj option \<Rightarrow> py_error + node" where
  "prof_node parts ob =
     (if parts = [] then Inl IndexError
      else Inr \<lparr>name = join ''@'' parts, short_name = last parts, time = 0, count = 0,
                tot_time = 0, tot_count = 0, pct_total = 0, tot_pct_total = 0,
                pct_parent = 0, child_time = 0, obj = ob\<rparr>)"

section \<open>The raw trace reader\<close>

type_synonym raw_record = "string \<times> int \<times> real"

text \<open>One line of a raw file: \<open>path, count, elapsed = line.split()\<close>, then
  \<open>int(count)\<close>, then \<open>float(elapsed)\<close>.\<close>

definition parse_line :: "string \<Rightarrow> py_error + raw_record" where
  "parse_line line =
     (case split_ws line of
        [path, c, elapsed] \<Rightarrow>
          (case py_int c of
             Inl e \<Rightarrow> Inl e
           | Inr n \<Rightarrow> (case py_float elapsed of Inl e \<Rightarrow> Inl e | Inr t \<Rightarrow> Inr (path, n, t)))
      | toks \<Rightarrow> Inl (ValueError (Unpack (length toks))))"

text \<open>The generator over the lines of a file: the records it yields, then the
  exception that ends it, if any.\<close>

fun iter_lines :: "string list \<Rightarrow> raw_record list \<times> py_error option" where
  "iter_lines [] = ([], None)"
| "iter_lines (l # ls) =
     (case parse_line l of
        Inl e \<Rightarrow> ([], Some e)
      | Inr r \<Rightarrow> (r # fst (iter_lines ls), snd (iter_lines ls)))"

text \<open>\<open>_iter_raw_prof_file(rawname)\<close>. The file system maps a file name to the lines
  of the file; opening a missing file raises.\<close>

type_synonym filesystem = "string \<Rightarrow> string list option"

definition iter_raw_prof_file :: "filesystem \<Rightarrow> string \<Rightarrow> raw_record list \<times> py_error option" where
  "iter_raw_prof_file fs rawname =
     (case fs rawname of None \<Rightarrow> ([], Some (IOError rawname)) | Some ls \<Rightarrow> iter_lines ls)"

section \<open>\<open>process_profile\<close>\<close>

text \<open>The extension test at the head of the file loop: \<open>None\<close> is \<open>dec = False\<close>.\<close>

definition dec_of :: "string \<Rightarrow> string option" where
  "dec_of fname =
     (let ext = snd (splitext fname)
      in case py_int (lstrip CHR ''.'' ext) of Inl e \<Rightarrow> None | Inr n \<Rightarrow> Some ext)"

text \<open>The body of the record loop, on the pair \<open>(tree_nodes, totals)\<close>.\<close>

definition add_record ::
  "nat \<Rightarrow> string option \<Rightarrow> node dict \<times> node dict \<Rightarrow> raw_record \<Rightarrow> py_error + node dict \<times> node dict"
where
  "add_record nfiles dec st r =
     (case st of (tree_nodes, totals) \<Rightarrow>
      case r of (funcpath0, cnt, t) \<Rightarrow>
        let suffix = (case dec of None \<Rightarrow> [] | Some d \<Rightarrow> d);
            decorate = (nfiles > 1 \<and> suffix \<noteq> []);
            parts = (if decorate then map (\<lambda>p. p @ suffix) (split_at CHR ''@'' funcpath0)
                     else split_at CHR ''@'' funcpath0);
            funcpath = (if decorate then join ''@'' parts else funcpath0)
        in case prof_node parts None of
             Inl e \<Rightarrow> Inl e
           | Inr nd \<Rightarrow>
               let tree_nodes' =
                     AList.update funcpath (nd\<lparr>time := time nd + t, count := count nd + cnt\<rparr>)
                       tree_nodes;
                   funcname = last parts
               in if funcname = ''$parent'' then Inr (tree_nodes', totals)
                  else case (case map_of totals funcname of
                               Some tn \<Rightarrow> Inr tn
                             | None \<Rightarrow> prof_node parts None) of
                         Inl e \<Rightarrow> Inl e
                       | Inr tnode \<Rightarrow>
                           Inr (tree_nodes',
                                AList.update funcname
                                  (tnode\<lparr>tot_time := tot_time tnode + t,
                                         tot_count := tot_count tnode + cnt\<rparr>) totals))"

fun add_records ::
  "nat \<Rightarrow> string option \<Rightarrow> node dict \<times> node dict \<Rightarrow> raw_record list \<Rightarrow> py_error + node dict \<times> node dict"
where
  "add_records nfiles dec st [] = Inr st"
| "add_records nfiles dec st (r # rs) =
     (case add_record nfiles dec st r of
        Inl e \<Rightarrow> Inl e
      | Inr st' \<Rightarrow> add_records nfiles dec st' rs)"

text \<open>The loop over \<open>flist\<close>: every record the reader yields is added, then the
  reader's exception, if any, ends \<open>process_profile\<close>.\<close>

fun read_files ::
  "filesystem \<Rightarrow> nat \<Rightarrow> node dict \<times> node dict \<Rightarrow> string list \<Rightarrow> py_error + node dict \<times> node dict"
where
  "read_files fs nfiles st [] = Inr st"
| "read_files fs nfiles st (fname # rest) =
     (case add_records nfiles (dec_of fname) st (fst (iter_raw_prof_file fs fname)) of
        Inl e \<Rightarrow> Inl e
      | Inr st' \<Rightarrow>
          (case snd (iter_raw_prof_file fs fname) of
             Some e \<Rightarrow> Inl e
           | None \<Rightarrow> read_files fs nfiles st' rest))"

text \<open>The second loop, for one item of \<open>tree_nodes\<close>: totals and percentages, then
  \<open>del node['obj']\<close> and \<open>del node['child_time']\<close>. No \<open>time\<close> changes in this loop,
  so the times are read from the dict as the first loop left it.\<close>

definition pct_node :: "node dict \<Rightarrow> node dict \<Rightarrow> string \<times> node \<Rightarrow> py_error + out_node" where
  "pct_node tree_nodes totals item =
     (case item of (funcpath, nd) \<Rightarrow>
        let parts = rsplit1 CHR ''@'' funcpath
        in if last parts \<noteq> ''$parent''
           then (case getitem totals (last parts) of
                   Inl e \<Rightarrow> Inl e
                 | Inr tn \<Rightarrow>
                (case getitem tree_nodes (hd parts) of
                   Inl e \<Rightarrow> Inl e
                 | Inr par \<Rightarrow>
                (case py_div (time nd) (time par) of
                   Inl e \<Rightarrow> Inl e
                 | Inr pp \<Rightarrow>
                (case getitem tree_nodes ''$total'' of
                   Inl e \<Rightarrow> Inl e
                 | Inr rootn \<Rightarrow>
                (case py_div (time nd) (time rootn) of
                   Inl e \<Rightarrow> Inl e
                 | Inr pt \<Rightarrow>
                (case py_div (tot_time tn) (time rootn) of
                   Inl e \<Rightarrow> Inl e
                 | Inr tpt \<Rightarrow>
                     Inr (out_node.truncate
                            (nd\<lparr>tot_time := tot_time tn, tot_count := tot_count tn,
                                pct_parent := pp, pct_total := pt, tot_pct_total := tpt\<rparr>))))))))
           else Inr (out_node.truncate nd))"

fun pct_pass :: "node dict \<Rightarrow> node dict \<Rightarrow> (string \<times> node) list \<Rightarrow> py_error + out_node dict" where
  "pct_pass tree_nodes totals [] = Inr []"
| "pct_pass tree_nodes totals (item # items) =
     (case pct_node tree_nodes totals item of
        Inl e \<Rightarrow> Inl e
      | Inr nd \<Rightarrow>
          (case pct_pass tree_nodes totals items of
             Inl e \<Rightarrow> Inl e
           | Inr rest \<Rightarrow> Inr ((fst item, nd) # rest)))"

text \<open>The last loop: the parent of every node whose last segment is \<open>$parent\<close> gets
  \<open>time = 0\<close>. The items are those of the dict the loop starts on.\<close>

fun zero_parents :: "(string \<times> out_node) list \<Rightarrow> out_node dict \<Rightarrow> py_error + out_node dict" where
  "zero_parents [] d = Inr d"
| "zero_parents (item # items) d =
     (let parts = rsplit1 CHR ''@'' (fst item)
      in if last parts = ''$parent''
         then (case getitem d (hd parts) of
                 Inl e \<Rightarrow> Inl e
               | Inr p \<Rightarrow> zero_parents items (AList.update (hd parts) (p\<lparr>time := 0\<rparr>) d))
         else zero_parents items d)"

definition process_profile ::
  "filesystem \<Rightarrow> string list \<Rightarrow> py_error + out_node list \<times> node dict" where
  "process_profile fs flist =
     (case read_files fs (length flist) ([], []) flist of
        Inl e \<Rightarrow> Inl e
      | Inr (tree_nodes, totals) \<Rightarrow>
     (case pct_pass tree_nodes totals tree_nodes of
        Inl e \<Rightarrow> Inl e
      | Inr tree1 \<Rightarrow>
     (case getitem tree1 ''$total'' of
        Inl e \<Rightarrow> Inl e
      | Inr rootn \<Rightarrow>
          let tree2 = AList.update ''$total'' (rootn\<lparr>tot_time := time rootn\<rparr>) tree1
          in (case zero_parents tree2 tree2 of
                Inl e \<Rightarrow> Inl e
              | Inr tree3 \<Rightarrow> Inr (map snd tree3, totals)))))"

section \<open>The call-stack tracker\<close>

text \<open>The module's globals, the profile function registered with the interpreter
  (\<open>sys.getprofile()\<close>), and what has been printed. \<open>etime()\<close> is an argument
  \<open>now\<close> of every operation that reads the clock.\<close>

datatype profile_fn = Instance_profile | Foreign_profile

record tracker =
  profile_start :: "real option"
  profile_setup :: bool
  profile_total :: real
  profile_matches :: "(string \<times> string list) list"
  call_stack :: "string list"
  timing_stack :: "real list"
  inst_data :: "node dict"
  sys_profile :: "profile_fn option"
  printed :: "string list"

text \<open>A call either returns or raises; the globals keep what was written before
  the exception.\<close>

datatype outcome = Returned tracker | Raised py_error tracker

text \<open>\<open>setup()\<close> with its default arguments. It takes from outside the module
  whether opening the output file fails, and the matches \<open>_collect_methods\<close> finds
  for the default method set.\<close>

record setup_env =
  open_fails :: bool
  default_matches :: "(string \<times> string list) list"

definition setup_profiling :: "setup_env \<Rightarrow> tracker \<Rightarrow> outcome" where
  "setup_profiling env s =
     (if profile_setup s then Raised (RuntimeError ''profiling is already set up.'') s
      else if open_fails env then Raised (IOError ''iprof'') (s\<lparr>profile_setup := True\<rparr>)
      else Returned (s\<lparr>profile_setup := True, profile_matches := default_matches env\<rparr>))"

text \<open>A frame as \<open>_instance_profile\<close> reads it: the code object's name, file and first
  line, and \<open>f_locals['self']\<close> when there is one.\<close>

record frame =
  co_name :: string
  co_filename :: string
  co_firstlineno :: nat
  f_self :: "pyobj option"

datatype event = Call | Return | Other_event

text \<open>Decimal digits of a natural number, for \<open>%d\<close>.\<close>

fun digits_of :: "nat \<Rightarrow> string" where
  "digits_of n =
     (if n < 10 then [char_of (48 + n)]
      else digits_of (n div 10) @ [char_of (48 + n mod 10)])"

declare digits_of.simps [simp del]

text \<open>The three nested tests of both branches: the function name is in
  \<open>_profile_matches\<close>, the frame has a \<open>self\<close>, and \<open>self\<close> is an instance of one of the
  matching classes.\<close>

definition matched_self :: "tracker \<Rightarrow> frame \<Rightarrow> pyobj option" where
  "matched_self s f =
     (case map_of (profile_matches s) (co_name f) of
        None \<Rightarrow> None
      | Some classes \<Rightarrow>
          (case f_self f of
             None \<Rightarrow> None
           | Some ob \<Rightarrow> if list_ex (\<lambda>c. c \<in> set classes) (obj_classes ob) then Some ob else None))"

text \<open>The call-site token \<open>"%s#%d#%d#%s"\<close> of a frame on an object.\<close>

definition token :: "frame \<Rightarrow> pyobj \<Rightarrow> string" where
  "token f ob =
     co_filename f @ ''#'' @ digits_of (co_firstlineno f) @ ''#'' @ digits_of (obj_id ob)
       @ ''#'' @ co_name f"

definition instance_profile :: "real \<Rightarrow> tracker \<Rightarrow> frame \<Rightarrow> event \<Rightarrow> outcome" where
  "instance_profile now s f ev =
     (case ev of
        Call \<Rightarrow>
          (case matched_self s f of
             None \<Rightarrow> Returned s
           | Some ob \<Rightarrow>
               Returned (s\<lparr>call_stack := call_stack s @ [token f ob],
                           timing_stack := timing_stack s @ [now]\<rparr>))
      | Return \<Rightarrow>
          (case matched_self s f of
             None \<Rightarrow> Returned s
           | Some ob \<Rightarrow>
               let path = join ''@'' (call_stack s)
               in (case (if map_of (inst_data s) path \<noteq> None then Inr (inst_data s)
                         else (case prof_node (call_stack s) (Some ob) of
                                 Inl e \<Rightarrow> Inl e
                               | Inr nd \<Rightarrow> Inr (AList.update path nd (inst_data s)))) of
                     Inl e \<Rightarrow> Raised e s
                   | Inr data1 \<Rightarrow>
                       if call_stack s = [] then Raised IndexError (s\<lparr>inst_data := data1\<rparr>)
                       else
                         let s1 = s\<lparr>inst_data := data1, call_stack := butlast (call_stack s)\<rparr>
                         in (case getitem data1 path of
                               Inl e \<Rightarrow> Raised e s1
                             | Inr pdata \<Rightarrow>
                                 if timing_stack s = [] then Raised IndexError s1
                                 else Returned
                                   (s1\<lparr>timing_stack := butlast (timing_stack s),
                                       inst_data :=
                                         AList.update path
                                           (pdata\<lparr>time := time pdata + (now - last (timing_stack s)),
                                                  count := count pdata + 1\<rparr>) data1\<rparr>))))
      | Other_event \<Rightarrow> Returned s)"

definition start :: "setup_env \<Rightarrow> real \<Rightarrow> tracker \<Rightarrow> outcome" where
  "start env now s =
     (if profile_start s \<noteq> None
      then Returned (s\<lparr>printed := printed s @ [''profiling is already active.'']\<rparr>)
      else
        (case (if profile_setup s then Returned s else setup_profiling env s) of
           Raised e s' \<Rightarrow> Raised e s'
         | Returned s1 \<Rightarrow>
             (case (if map_of (inst_data s1) ''$total'' \<noteq> None then Inr (inst_data s1)
                    else (case prof_node [''$total''] None of
                            Inl e \<Rightarrow> Inl e
                          | Inr nd \<Rightarrow> Inr (AList.update ''$total'' nd (inst_data s1)))) of
                Inl e \<Rightarrow>
                  Raised e (s1\<lparr>profile_start := Some now,
                               call_stack := call_stack s1 @ [''$total'']\<rparr>)
              | Inr data1 \<Rightarrow>
                  let s2 = s1\<lparr>profile_start := Some now,
                              call_stack := call_stack s1 @ [''$total''],
                              inst_data := data1\<rparr>
                  in if sys_profile s2 \<noteq> None
                     then Raised (RuntimeError ''another profile function is already active.'') s2
                     else Returned (s2\<lparr>sys_profile := Some Instance_profile\<rparr>))))"

definition stop :: "real \<Rightarrow> tracker \<Rightarrow> outcome" where
  "stop now s =
     (case profile_start s of
        None \<Rightarrow> Returned s
      | Some t0 \<Rightarrow>
          let s1 = s\<lparr>sys_profile := None\<rparr>
          in if call_stack s1 = [] then Raised IndexError s1
             else
               let s2 = s1\<lparr>call_stack := butlast (call_stack s1),
                           profile_total := profile_total s1 + (now - t0)\<rparr>
               in (case getitem (inst_data s2) ''$total'' of
                     Inl e \<Rightarrow> Raised e s2
                   | Inr nd \<Rightarrow>
                       Returned
                         (s2\<lparr>inst_data :=
                                AList.update ''$total''
                                  (nd\<lparr>time := profile_total s2, count := count nd + 1\<rparr>)
                                  (inst_data s2),
                              profile_start := None\<rparr>)))"

section \<open>\<open>_finalize_profile\<close>: child times and the \<open>$parent\<close> nodes\<close>

text \<open>The loop under \<open># compute child times\<close>, over the items of \<open>_inst_data\<close>. It
  writes \<open>child_time\<close> only, so the \<open>time\<close> it reads is the one of the item. The
  result is the dict as the loop left it and the exception that ended it, if any.\<close>

fun child_times :: "(string \<times> node) list \<Rightarrow> node dict \<Rightarrow> node dict \<times> py_error option" where
  "child_times [] d = (d, None)"
| "child_times (item # items) d =
     (let parts = rsplit1 CHR ''@'' (fst item)
      in if length parts > 1
         then (case getitem d (hd parts) of
                 Inl e \<Rightarrow> (d, Some e)
               | Inr p \<Rightarrow>
                   child_times items
                     (AList.update (hd parts)
                        (p\<lparr>child_time := child_time p + time (snd item)\<rparr>) d))
         else child_times items d)"

text \<open>The loop under \<open># compute child timings\<close>: the list \<open>parnodes\<close>.\<close>

fun parnodes :: "(string \<times> node) list \<Rightarrow> py_error + (string \<times> node) list" where
  "parnodes [] = Inr []"
| "parnodes (item # items) =
     (if child_time (snd item) > 0
      then (let pparts = split_at CHR ''@'' (fst item) @ [''$parent'']
            in case prof_node pparts None of
                 Inl e \<Rightarrow> Inl e
               | Inr ex \<Rightarrow>
                   (case parnodes items of
                      Inl e \<Rightarrow> Inl e
                    | Inr rest \<Rightarrow>
                        Inr ((join ''@'' pparts,
                              ex\<lparr>time := time (snd item) - child_time (snd item), count := 1\<rparr>)
                             # rest)))
      else parnodes items)"

text \<open>The two loops on the dict \<open>_inst_data\<close> as \<open>stop()\<close> left it, and the
  records \<open>_finalize_profile\<close> then writes, one per item of
  \<open>chain(iteritems(_inst_data), parnodes)\<close>. The loop before them, which resolves
  names from source files into \<open>_obj_map\<close> and writes nothing else, is the name
  resolver's part and is not modelled; neither is the replacement of the names through
  \<open>_obj_map\<close> and the formatting of a record as a line.\<close>

definition finalize_records :: "node dict \<Rightarrow> py_error + (string \<times> node) list" where
  "finalize_records d =
     (case child_times d d of
        (d1, Some e) \<Rightarrow> Inl e
      | (d1, None) \<Rightarrow>
          (case parnodes d1 of Inl e \<Rightarrow> Inl e | Inr ps \<Rightarrow> Inr (d1 @ ps)))"

section \<open>Notions of the specification and example inputs\<close>

text \<open>A direct child of the path \<open>p\<close>: \<open>p\<close>, the separator \<open>@\<close>, and one more
  segment (which holds no separator).\<close>

definition direct_child :: "string \<Rightarrow> string \<Rightarrow> bool" where
  "direct_child p q =
     (length p < length q \<and> take (length p) q = p \<and> q ! length p = CHR ''@''
      \<and> CHR ''@'' \<notin> set (drop (Suc (length p)) q))"

text \<open>The sum of the \<open>time\<close> fields of the direct children of \<open>p\<close> among the items
  of a dict.\<close>

definition child_sum :: "string \<Rightarrow> (string \<times> node) list \<Rightarrow> real" where
  "child_sum p items =
     sum_list (map (\<lambda>item. time (snd item)) (filter (\<lambda>item. direct_child p (fst item)) items))"

text \<open>The synthetic leaf of a node: its path extended by the segment \<open>$parent\<close>, the
  node's time less its child time, and count 1.\<close>

definition exclusive_self :: "string \<times> node \<Rightarrow> string \<times> node" where
  "exclusive_self item =
     (fst item @ ''@$parent'',
      \<lparr>name = fst item @ ''@$parent'', short_name = ''$parent'',
        time = time (snd item) - child_time (snd item), count = 1,
        tot_time = 0, tot_count = 0, pct_total = 0, tot_pct_total = 0,
        pct_parent = 0, child_time = 0, obj = None\<rparr>)"

text \<open>A malformed line: not exactly three fields, or a count that is no integer
  literal, or a time that is no float literal.\<close>

definition malformed :: "string \<Rightarrow> bool" where
  "malformed l =
     (let toks = split_ws l
      in if length toks = 3 then isl (py_int (toks ! 1)) \<or> isl (py_float (toks ! 2)) else True)"

text \<open>The node a return event writes to: the one stored under the joined call stack,
  or a new one.\<close>

definition path_node :: "tracker \<Rightarrow> pyobj \<Rightarrow> node" where
  "path_node s ob =
     (case map_of (inst_data s) (join ''@'' (call_stack s)) of
        Some n \<Rightarrow> n
      | None \<Rightarrow>
          \<lparr>name = join ''@'' (call_stack s), short_name = last (call_stack s), time = 0,
            count = 0, tot_time = 0, tot_count = 0, pct_total = 0, tot_pct_total = 0,
            pct_parent = 0, child_time = 0, obj = Some ob\<rparr>)"

text \<open>All keys of a dict hold a dot, as every path decorated with a file extension
  does.\<close>

definition dotted :: "node dict \<Rightarrow> bool" where
  "dotted d = list_all (\<lambda>item. CHR ''.'' \<in> set (fst item)) d"

text \<open>File systems with one raw file \<open>iprof.0\<close>, and with the two raw files
  \<open>iprof.0\<close> and \<open>iprof.1\<close> of a run on two processes.\<close>

definition one_file :: "string list \<Rightarrow> filesystem" where
  "one_file ls = (\<lambda>f. if f = ''iprof.0'' then Some ls else None)"

definition two_files :: "string list \<Rightarrow> string list \<Rightarrow> filesystem" where
  "two_files ls0 ls1 =
     (\<lambda>f. if f = ''iprof.0'' then Some ls0 else if f = ''iprof.1'' then Some ls1 else None)"

text \<open>Two files with the same malformed line: the second line of \<open>a.0\<close> and the first
  line of \<open>b.7\<close>.\<close>

definition bad_files :: filesystem where
  "bad_files =
     (\<lambda>f. if f = ''a.0'' then Some [''A 1 2.0'', ''B 1'']
          else if f = ''b.7'' then Some [''B 1''] else None)"

text \<open>A node with a time, as the tracker leaves it after one return.\<close>

definition timed_node :: "string \<Rightarrow> string \<Rightarrow> real \<Rightarrow> node" where
  "timed_node path seg t =
     \<lparr>name = path, short_name = seg, time = t, count = 1, tot_time = 0, tot_count = 0,
      pct_total = 0, tot_pct_total = 0, pct_parent = 0, child_time = 0, obj = None\<rparr>"

text \<open>The nodes of a session of 9 seconds in which \<open>a\<close> ran 4 seconds, 2 of them in
  \<open>b\<close>; and the same nodes after the child-time pass.\<close>

definition session_data :: "node dict" where
  "session_data =
     [(''$total'', timed_node ''$total'' ''$total'' 9),
      (''$total@a@b'', timed_node ''$total@a@b'' ''b'' 2),
      (''$total@a'', timed_node ''$total@a'' ''a'' 4)]"

definition session_data_children :: "node dict" where
  "session_data_children =
     [(''$total'', (timed_node ''$total'' ''$total'' 9)\<lparr>child_time := 4\<rparr>),
      (''$total@a@b'', timed_node ''$total@a@b'' ''b'' 2),
      (''$total@a'', (timed_node ''$total@a'' ''a'' 4)\<lparr>child_time := 2\<rparr>)]"

text \<open>The same nodes after a second child-time pass, as a second call of
  \<open>_finalize_profile\<close> leaves them.\<close>

definition session_data_twice :: "node dict" where
  "session_data_twice =
     [(''$total'', (timed_node ''$total'' ''$total'' 9)\<lparr>child_time := 8\<rparr>),
      (''$total@a@b'', timed_node ''$total@a@b'' ''b'' 2),
      (''$total@a'', (timed_node ''$total@a'' ''a'' 4)\<lparr>child_time := 4\<rparr>)]"

text \<open>Tracker states: before any session, inside a session, and inside a session with
  the method \<open>solve\<close> of a group running and, called from it, \<open>solve\<close> of a component.\<close>

definition demo_env :: setup_env where
  "demo_env = \<lparr>open_fails = False, default_matches = [(''solve'', [''System''])]\<rparr>"

definition total_node :: node where
  "total_node =
     \<lparr>name = ''$total'', short_name = ''$total'', time = 0, count = 0, tot_time = 0,
      tot_count = 0, pct_total = 0, tot_pct_total = 0, pct_parent = 0, child_time = 0,
      obj = None\<rparr>"

definition idle_state :: tracker where
  "idle_state =
     \<lparr>profile_start = None, profile_setup = True, profile_total = 0,
      profile_matches = [(''solve'', [''System''])], call_stack = [], timing_stack = [],
      inst_data = [], sys_profile = None, printed = []\<rparr>"

definition active_state :: tracker where
  "active_state =
     \<lparr>profile_start = Some 1, profile_setup = True, profile_total = 0,
      profile_matches = [(''solve'', [''System''])], call_stack = [''$total''],
      timing_stack = [], inst_data = [(''$total'', total_node)],
      sys_profile = Some Instance_profile, printed = []\<rparr>"

definition group_obj :: pyobj where
  "group_obj = \<lparr>obj_id = 7, obj_classes = [''Group'', ''System''], pathname = None\<rparr>"

definition group_frame :: frame where
  "group_frame =
     \<lparr>co_name = ''solve'', co_filename = ''g.py'', co_firstlineno = 10,
      f_self = Some group_obj\<rparr>"

definition nested_state :: tracker where
  "nested_state =
     active_state\<lparr>call_stack := [''$total'', ''g.py#10#7#solve'', ''c.py#20#8#solve''],
                  timing_stack := [2, 3]\<rparr>"

definition foreign_state :: tracker where
  "foreign_state = idle_state\<lparr>sys_profile := Some Foreign_profile\<rparr>"

section \<open>Strings and dicts\<close>

lemma split_at_nonempty: "split_at c s \<noteq> []"
  by (cases s) auto

lemma join_split_at: "join [c] (split_at c s) = s"
proof (induction s)
  case Nil
  then show ?case by simp
next
  case (Cons x xs)
  obtain p ps where sp: "split_at c xs = p # ps"
    using split_at_nonempty [of c xs] by (cases "split_at c xs") auto
  with Cons show ?case
    by (cases ps) auto
qed

lemma join_snoc: "xs \<noteq> [] \<Longrightarrow> join sep (xs @ [y]) = join sep xs @ sep @ y"
  by (induction sep xs rule: join.induct) auto

text \<open>The executable test for a direct child says what the specification says: the
  path is \<open>p\<close>, a separator and one segment without a separator.\<close>

lemma direct_child_iff:
  "direct_child p q \<longleftrightarrow> (\<exists>seg. CHR ''@'' \<notin> set seg \<and> q = p @ ''@'' @ seg)"
proof
  assume dc: "direct_child p q"
  then have lt: "length p < length q" and tk: "take (length p) q = p"
    and at: "q ! length p = CHR ''@''" and seg: "CHR ''@'' \<notin> set (drop (Suc (length p)) q)"
    by (simp_all add: direct_child_def)
  have "q = take (length p) q @ q ! length p # drop (Suc (length p)) q"
    using lt by (simp add: id_take_nth_drop)
  then have "q = p @ ''@'' @ drop (Suc (length p)) q"
    using tk at by simp
  with seg show "\<exists>seg. CHR ''@'' \<notin> set seg \<and> q = p @ ''@'' @ seg"
    by blast
next
  assume "\<exists>seg. CHR ''@'' \<notin> set seg \<and> q = p @ ''@'' @ seg"
  then show "direct_child p q"
    by (auto simp: direct_child_def)
qed

lemma rsplit1_snoc:
  assumes "c \<notin> set seg"
  shows "rsplit1 c (p @ c # seg) = [p, seg]"
proof -
  have tw: "takeWhile (\<lambda>x. x \<noteq> c) (rev seg @ c # rev p) = rev seg"
    using assms by (subst takeWhile_append2) auto
  have dw: "dropWhile (\<lambda>x. x \<noteq> c) (rev seg @ c # rev p) = c # rev p"
    using assms by (subst dropWhile_append2) auto
  show ?thesis
    by (simp add: rsplit1_def tw dw)
qed

text \<open>The parent that \<open>rsplit('@', 1)\<close> finds is the path the node is a direct child
  of.\<close>

lemma rsplit1_parent:
  "(length (rsplit1 CHR ''@'' q) > 1 \<and> hd (rsplit1 CHR ''@'' q) = p) \<longleftrightarrow> direct_child p q"
proof (cases "CHR ''@'' \<in> set q")
  case True
  then obtain p0 seg where q: "q = p0 @ CHR ''@'' # seg" "CHR ''@'' \<notin> set seg"
    by (auto dest: split_list_last)
  then have r: "rsplit1 CHR ''@'' q = [p0, seg]"
    by (simp add: rsplit1_snoc)
  show ?thesis
  proof
    assume "length (rsplit1 CHR ''@'' q) > 1 \<and> hd (rsplit1 CHR ''@'' q) = p"
    with r q show "direct_child p q"
      by (auto simp: direct_child_iff)
  next
    assume "direct_child p q"
    then obtain seg' where "CHR ''@'' \<notin> set seg'" "q = p @ CHR ''@'' # seg'"
      by (auto simp: direct_child_iff)
    then have "rsplit1 CHR ''@'' q = [p, seg']"
      by (simp add: rsplit1_snoc)
    then show "length (rsplit1 CHR ''@'' q) > 1 \<and> hd (rsplit1 CHR ''@'' q) = p"
      by simp
  qed
next
  case False
  then have "rsplit1 CHR ''@'' q = [q]"
    by (simp add: rsplit1_def)
  moreover from False have "\<not> direct_child p q"
    by (auto simp: direct_child_iff)
  ultimately show ?thesis by simp
qed

lemma update_update: "AList.update k v' (AList.update k v al) = AList.update k v' al"
  by (induction al) auto

lemma update_present_keys:
  "map_of d k = Some v \<Longrightarrow> map fst (AList.update k v' d) = map fst d"
  by (induction d) (auto split: if_splits)

section \<open>The child-time pass and the \<open>$parent\<close> nodes\<close>

lemma child_sum_Cons:
  "child_sum p (item # items) =
     (if direct_child p (fst item) then time (snd item) + child_sum p items
      else child_sum p items)"
  by (simp add: child_sum_def)

text \<open>The pass over any remaining items: every node gains the times of its direct
  children among them.\<close>

lemma child_times_map_of:
  "child_times items d = (d1, None) \<Longrightarrow>
   map_of d1 p =
     map_option (\<lambda>n. n\<lparr>child_time := child_time n + child_sum p items\<rparr>) (map_of d p)"
proof (induction items arbitrary: d)
  case Nil
  then show ?case
    by (cases "map_of d p") (simp_all add: child_sum_def)
next
  case (Cons item items)
  let ?parts = "rsplit1 CHR ''@'' (fst item)"
  show ?case
  proof (cases "length ?parts > 1")
    case False
    then have "\<not> direct_child p (fst item)"
      using rsplit1_parent [of "fst item" p] by simp
    with False Cons show ?thesis
      by (simp add: child_sum_Cons)
  next
    case True
    with Cons.prems obtain par where par: "map_of d (hd ?parts) = Some par"
      by (auto simp: getitem_def Let_def split: option.splits)
    let ?d2 = "AList.update (hd ?parts) (par\<lparr>child_time := child_time par + time (snd item)\<rparr>) d"
    from Cons.prems True par have "child_times items ?d2 = (d1, None)"
      by (simp add: getitem_def Let_def)
    then have ih: "map_of d1 p =
        map_option (\<lambda>n. n\<lparr>child_time := child_time n + child_sum p items\<rparr>) (map_of ?d2 p)"
      by (rule Cons.IH)
    show ?thesis
    proof (cases "hd ?parts = p")
      case same: True
      with True have "direct_child p (fst item)"
        using rsplit1_parent [of "fst item" p] by simp
      with ih same par show ?thesis
        by (simp add: update_conv child_sum_Cons add.assoc)
    next
      case diff: False
      then have "\<not> direct_child p (fst item)"
        using rsplit1_parent [of "fst item" p] by simp
      with ih diff show ?thesis
        by (simp add: update_conv child_sum_Cons)
    qed
  qed
qed

lemma child_times_keys:
  "child_times items d = (d1, e) \<Longrightarrow> map fst d1 = map fst d"
proof (induction items arbitrary: d)
  case Nil
  then show ?case by simp
next
  case (Cons item items)
  then show ?case
    by (auto simp: getitem_def Let_def update_present_keys split: if_splits option.splits)
qed

lemma update_child_time_times:
  "map_of d k = Some v \<Longrightarrow>
   map (\<lambda>item. time (snd item)) (AList.update k (v\<lparr>child_time := x\<rparr>) d)
     = map (\<lambda>item. time (snd item)) d"
  by (induction d) (auto split: if_splits)

lemma child_times_times:
  "child_times items d = (d1, e) \<Longrightarrow>
   map (\<lambda>item. time (snd item)) d1 = map (\<lambda>item. time (snd item)) d"
proof (induction items arbitrary: d)
  case Nil
  then show ?case by simp
next
  case (Cons item items)
  then show ?case
    by (auto simp: getitem_def Let_def update_child_time_times split: if_splits option.splits)
qed

lemma parnodes_eq:
  "parnodes d = Inr (map exclusive_self (filter (\<lambda>item. child_time (snd item) > 0) d))"
proof (induction d)
  case Nil
  then show ?case by simp
next
  case (Cons item d)
  have j: "join ''@'' (split_at CHR ''@'' (fst item) @ [''$parent'']) = fst item @ ''@$parent''"
    using join_snoc [OF split_at_nonempty, of "''@''" "CHR ''@''" "fst item" "''$parent''"]
    by (simp add: join_split_at)
  show ?case
    using Cons j by (simp add: prof_node_def exclusive_self_def split_at_nonempty)
qed

lemma session_child_times:
  "child_times session_data session_data = (session_data_children, None)"
  by code_simp

text \<open>The first child-time pass, on the nodes as the tracker made them
  (\<open>child_time\<close> 0, one node per path): when it ends without a \<open>KeyError\<close>, it
  keeps the paths, and the \<open>child_time\<close> of every node is the sum of the \<open>time\<close>
  fields of its direct children.\<close>

lemma first_pass_child_times:
  assumes "distinct (map fst d)"
    and "list_all (\<lambda>item. child_time (snd item) = 0) d"
    and "child_times d d = (d1, None)"
  shows "map fst d1 = map fst d \<and>
         list_all (\<lambda>item. child_time (snd item) = child_sum (fst item) d) d1"
proof -
  have keys: "map fst d1 = map fst d"
    using assms(3) by (rule child_times_keys)
  have "child_time n1 = child_sum p d" if "(p, n1) \<in> set d1" for p n1
  proof -
    from keys assms(1) have "distinct (map fst d1)" by simp
    with that have "map_of d1 p = Some n1" by simp
    then obtain n where n: "map_of d p = Some n"
      "n1 = n\<lparr>child_time := child_time n + child_sum p d\<rparr>"
      using child_times_map_of [OF assms(3), of p] by (cases "map_of d p") auto
    from n(1) have "(p, n) \<in> set d" by (rule map_of_SomeD)
    with assms(2) have "child_time n = 0" by (auto simp: list_all_iff)
    with n(2) show ?thesis by simp
  qed
  then have "list_all (\<lambda>item. child_time (snd item) = child_sum (fst item) d) d1"
    by (auto simp: list_all_iff)
  with keys show ?thesis by simp
qed

lemma first_pass_child_times_example:
  "distinct (map fst session_data)
   \<and> list_all (\<lambda>item. child_time (snd item) = 0) session_data
   \<and> child_times session_data session_data = (session_data_children, None)
   \<and> map fst session_data_children = map fst session_data
   \<and> list_all (\<lambda>item. child_time (snd item) = child_sum (fst item) session_data)
        session_data_children"
proof -
  have h1: "distinct (map fst session_data)"
    by (simp add: session_data_def)
  have h2: "list_all (\<lambda>item. child_time (snd item) = 0) session_data"
    by (simp add: session_data_def timed_node_def)
  from first_pass_child_times [OF h1 h2 session_child_times] h1 h2 session_child_times
  show ?thesis by simp
qed

text \<open>
  Claim C8 fails on the code. The pass adds to the \<open>child_time\<close> a node already has
  and never resets it. \<open>_finalize_profile\<close> runs twice when the profiler is run as
  a script: \<open>main()\<close> calls it, and \<open>setup()\<close> has registered it to run at exit,
  whatever its argument \<open>finalize\<close> is. On the nodes of the session above, the first
  pass gives \<open>$total\<close> and \<open>$total@a\<close> the child times 4 and 2, the sums of the
  times of their direct children; the second pass gives them 8 and 4, twice those sums,
  and the \<open>$parent\<close> nodes written then hold the times 1 and 0 where the times
  spent in \<open>$total\<close> and \<open>a\<close> themselves are 5 and 2.
\<close>

theorem second_pass_doubles_child_time:
  "child_times session_data session_data = (session_data_children, None)
   \<and> child_times session_data_children session_data_children = (session_data_twice, None)
   \<and> map (\<lambda>item. child_time (snd item)) session_data_twice = [8, 0, 4]
   \<and> map (\<lambda>item. child_sum (fst item) session_data_children) session_data_twice = [4, 0, 2]
   \<and> finalize_records session_data_children =
       Inr (session_data_twice @
            [(''$total@$parent'',
              \<lparr>name = ''$total@$parent'', short_name = ''$parent'', time = 1, count = 1,
                tot_time = 0, tot_count = 0, pct_total = 0, tot_pct_total = 0,
                pct_parent = 0, child_time = 0, obj = None\<rparr>),
             (''$total@a@$parent'',
              \<lparr>name = ''$total@a@$parent'', short_name = ''$parent'', time = 0, count = 1,
                tot_time = 0, tot_count = 0, pct_total = 0, tot_pct_total = 0,
                pct_parent = 0, child_time = 0, obj = None\<rparr>)])"
  by code_simp

text \<open>
  Claim C7. At finalize time, when the child-time pass has ended, the records to write
  are the nodes themselves, with the \<open>time\<close> they had before, followed by exactly one
  synthetic leaf for every node whose \<open>child_time\<close> is greater than zero: its path is
  the node's path extended by the segment \<open>$parent\<close>, its \<open>time\<close> is the node's
  \<open>time\<close> minus its \<open>child_time\<close>, its \<open>count\<close> is 1. A node whose \<open>child_time\<close>
  is zero gets none.
\<close>

theorem parent_nodes_emitted:
  assumes "child_times d d = (d1, None)"
  shows "finalize_records d =
           Inr (d1 @ map exclusive_self (filter (\<lambda>item. child_time (snd item) > 0) d1))
         \<and> map fst d1 = map fst d
         \<and> map (\<lambda>item. time (snd item)) d1 = map (\<lambda>item. time (snd item)) d"
  using assms child_times_keys [OF assms] child_times_times [OF assms]
  by (simp add: finalize_records_def parnodes_eq)

theorem parent_nodes_emitted_witness:
  "child_times session_data session_data = (session_data_children, None)
   \<and> finalize_records session_data =
       Inr (session_data_children @
            [exclusive_self (''$total'', (timed_node ''$total'' ''$total'' 9)\<lparr>child_time := 4\<rparr>),
             exclusive_self (''$total@a'', (timed_node ''$total@a'' ''a'' 4)\<lparr>child_time := 2\<rparr>)])"
  using parent_nodes_emitted [OF session_child_times] session_child_times
  by (simp add: session_data_children_def timed_node_def)

section \<open>The raw trace reader\<close>

lemma py_int_error: "py_int s = Inl e \<Longrightarrow> e = ValueError (Int_literal s)"
  by (auto simp: py_int_def Let_def split: prod.splits if_splits)

lemma py_float_error: "py_float s = Inl e \<Longrightarrow> e = ValueError (Float_literal s)"
  by (auto simp: py_float_def Let_def split: prod.splits if_splits)

lemma length_three: "length xs = 3 \<Longrightarrow> \<exists>a b c. xs = [a, b, c]"
  by (cases xs; cases "tl xs"; cases "tl (tl xs)") auto

lemma parse_line_three:
  "split_ws l = [a, b, c] \<Longrightarrow>
   parse_line l =
     (case py_int b of Inl e \<Rightarrow> Inl e
      | Inr n \<Rightarrow> (case py_float c of Inl e \<Rightarrow> Inl e | Inr t \<Rightarrow> Inr (a, n, t)))"
  by (simp add: parse_line_def)

lemma parse_line_other:
  "length (split_ws l) \<noteq> 3 \<Longrightarrow> parse_line l = Inl (ValueError (Unpack (length (split_ws l))))"
  by (auto simp: parse_line_def split: list.splits)

text \<open>The lines the specification calls malformed are the lines the reader raises
  on.\<close>

lemma malformed_iff: "malformed l \<longleftrightarrow> isl (parse_line l)"
proof (cases "length (split_ws l) = 3")
  case True
  then obtain a b c where t: "split_ws l = [a, b, c]"
    using length_three by blast
  then show ?thesis
    by (auto simp: malformed_def parse_line_three split: sum.splits)
next
  case False
  then show ?thesis
    by (simp add: malformed_def parse_line_other)
qed

lemma parse_line_error: "parse_line l = Inl e \<Longrightarrow> \<exists>v. e = ValueError v"
proof (cases "length (split_ws l) = 3")
  case True
  assume e: "parse_line l = Inl e"
  from True obtain a b c where t: "split_ws l = [a, b, c]"
    using length_three by blast
  with e show ?thesis
    by (auto simp: parse_line_three split: sum.splits dest: py_int_error py_float_error)
next
  case False
  assume "parse_line l = Inl e"
  with False show ?thesis
    by (auto simp: parse_line_other)
qed

lemma iter_lines_append:
  "list_all (\<lambda>x. \<not> malformed x) pre \<Longrightarrow>
   iter_lines (pre @ rest) =
     (map (\<lambda>x. projr (parse_line x)) pre @ fst (iter_lines rest), snd (iter_lines rest))"
proof (induction pre)
  case Nil
  then show ?case by simp
next
  case (Cons x pre)
  then show ?case
    by (cases "parse_line x") (auto simp: malformed_iff)
qed

text \<open>
  Claim C9, as the code has it. For every input file that contains a malformed line,
  the reader yields the records of the lines before the first malformed line and then
  raises a \<open>ValueError\<close>: the line is not skipped. The error is the one
  \<open>parse_line\<close> gives for the text of that line; it carries the number of fields or
  the rejected literal, and neither the file name nor the line number.
\<close>

theorem reader_raises_on_malformed_line:
  assumes "fs f = Some (pre @ l # post)"
    and "list_all (\<lambda>x. \<not> malformed x) pre"
    and "malformed l"
  shows "\<exists>v. parse_line l = Inl (ValueError v) \<and>
             iter_raw_prof_file fs f =
               (map (\<lambda>x. projr (parse_line x)) pre, Some (ValueError v))"
proof -
  from assms(3) obtain e where e: "parse_line l = Inl e"
    by (cases "parse_line l") (auto simp: malformed_iff)
  then obtain v where v: "e = ValueError v"
    using parse_line_error by blast
  from e have "iter_lines (l # post) = ([], Some e)"
    by simp
  with iter_lines_append [OF assms(2), of "l # post"]
  have "iter_lines (pre @ l # post) = (map (\<lambda>x. projr (parse_line x)) pre, Some e)"
    by simp
  with assms(1) e v show ?thesis
    by (simp add: iter_raw_prof_file_def)
qed

theorem reader_raises_on_malformed_line_witness:
  "bad_files ''a.0'' = Some ([''A 1 2.0''] @ ''B 1'' # [])
   \<and> list_all (\<lambda>x. \<not> malformed x) [''A 1 2.0'']
   \<and> malformed ''B 1''
   \<and> (\<exists>v. parse_line ''B 1'' = Inl (ValueError v) \<and>
           iter_raw_prof_file bad_files ''a.0'' =
             (map (\<lambda>x. projr (parse_line x)) [''A 1 2.0''], Some (ValueError v)))"
proof -
  have h1: "bad_files ''a.0'' = Some ([''A 1 2.0''] @ ''B 1'' # [])"
    by (simp add: bad_files_def)
  have h2: "list_all (\<lambda>x. \<not> malformed x) [''A 1 2.0'']"
    by code_simp
  have h3: "malformed ''B 1''"
    by code_simp
  from reader_raises_on_malformed_line
         [of bad_files "''a.0''" "[''A 1 2.0'']" "''B 1''" "[]", OF h1 h2 h3] h1 h2 h3
  show ?thesis by blast
qed

text \<open>
  Claim C9 as stated fails: the failure does not name the offending file and line. The
  same malformed line, as line 2 of \<open>a.0\<close> and as line 1 of \<open>b.7\<close>, ends the reader
  with the same exception.
\<close>

theorem reader_error_names_no_file_counterexample:
  "snd (iter_raw_prof_file bad_files ''a.0'') = Some (ValueError (Unpack 2))
   \<and> snd (iter_raw_prof_file bad_files ''b.7'') = Some (ValueError (Unpack 2))"
  by code_simp

section \<open>\<open>process_profile\<close> on concrete raw files\<close>

text \<open>
  Claim C2, as the code has it. For an input raw file that holds only a \<open>$total\<close>
  record with time zero, such as \<open>$total 1 0.0\<close>, \<open>process_profile\<close> raises
  \<open>ZeroDivisionError\<close> at the first percentage it computes (\<open>pct_parent\<close> of the root,
  whose parent lookup finds the root itself): no sentinel value is set.
\<close>

theorem zero_root_raises:
  assumes "fs f = Some [l]"
    and "parse_line l = Inr (''$total'', c, 0)"
  shows "process_profile fs [f] = Inl ZeroDivisionError"
  using assms
  by (simp add: process_profile_def iter_raw_prof_file_def add_record_def prof_node_def
      pct_node_def getitem_def py_div_def rsplit1_def Let_def)

theorem zero_root_raises_witness:
  "one_file [''$total 1 0.0''] ''iprof.0'' = Some [''$total 1 0.0'']
   \<and> parse_line ''$total 1 0.0'' = Inr (''$total'', 1, 0)
   \<and> process_profile (one_file [''$total 1 0.0'']) [''iprof.0''] = Inl ZeroDivisionError"
proof -
  have h1: "one_file [''$total 1 0.0''] ''iprof.0'' = Some [''$total 1 0.0'']"
    by (simp add: one_file_def)
  have h2: "parse_line ''$total 1 0.0'' = Inr (''$total'', 1, 0)"
    by code_simp
  from zero_root_raises
         [of "one_file [''$total 1 0.0'']" "''iprof.0''" "''$total 1 0.0''" 1, OF h1 h2] h1 h2
  show ?thesis by simp
qed

text \<open>
  Claim C2 as stated fails: on the file with the only record \<open>$total 1 0.0\<close>,
  \<open>process_profile\<close> raises.
\<close>

theorem zero_duration_counterexample:
  "process_profile (one_file [''$total 1 0.0'']) [''iprof.0''] = Inl ZeroDivisionError"
  by code_simp

text \<open>
  Claim C3 as stated fails: on the raw file with the records \<open>A 1 2.0\<close>, \<open>A@B 1 1.0\<close>
  and \<open>$total 1 3.0\<close>, \<open>process_profile\<close> returns three nodes. There is no node
  \<open>A@$parent\<close>, the time of \<open>A\<close> is 2 and not zero, and no node has a \<open>child_time\<close>.
\<close>

theorem scenario_counterexample:
  "process_profile (one_file [''A 1 2.0'', ''A@B 1 1.0'', ''$total 1 3.0'']) [''iprof.0''] =
     Inr ([\<lparr>name = ''A'', short_name = ''A'', time = 2, count = 1, tot_time = 2,
             tot_count = 1, pct_total = 2 / 3, tot_pct_total = 2 / 3, pct_parent = 1\<rparr>,
           \<lparr>name = ''A@B'', short_name = ''B'', time = 1, count = 1, tot_time = 1,
             tot_count = 1, pct_total = 1 / 3, tot_pct_total = 1 / 3, pct_parent = 1 / 2\<rparr>,
           \<lparr>name = ''$total'', short_name = ''$total'', time = 3, count = 1, tot_time = 3,
             tot_count = 1, pct_total = 1, tot_pct_total = 1, pct_parent = 1\<rparr>],
          [(''A'', \<lparr>name = ''A'', short_name = ''A'', time = 0, count = 0, tot_time = 2,
                    tot_count = 1, pct_total = 0, tot_pct_total = 0, pct_parent = 0,
                    child_time = 0, obj = None\<rparr>),
           (''B'', \<lparr>name = ''A@B'', short_name = ''B'', time = 0, count = 0, tot_time = 1,
                    tot_count = 1, pct_total = 0, tot_pct_total = 0, pct_parent = 0,
                    child_time = 0, obj = None\<rparr>),
           (''$total'', \<lparr>name = ''$total'', short_name = ''$total'', time = 0, count = 0,
                    tot_time = 3, tot_count = 1, pct_total = 0, tot_pct_total = 0,
                    pct_parent = 0, child_time = 0, obj = None\<rparr>)])"
  by code_simp

text \<open>
  Claim C3, as the code has it. On the raw file with the records \<open>A 1 2.0\<close>,
  \<open>A@B 1 1.0\<close> and \<open>$total 1 3.0\<close>, \<open>process_profile\<close> yields the nodes \<open>A\<close>
  (time 2, count 1, \<open>tot_time\<close> 2), \<open>A@B\<close> (time 1, \<open>pct_total\<close> 1/3) and \<open>$total\<close>,
  and nothing else. When the file also holds the record \<open>A@$parent 1 1.0\<close>, which
  \<open>_finalize_profile\<close> writes for a node with child time 1, the result has the node
  \<open>A@$parent\<close> with time 1 and the node \<open>A\<close> with time 0, count 1 and \<open>tot_time\<close> 2;
  \<open>A@B\<close> keeps time 1 and \<open>pct_total\<close> 1/3.
\<close>

theorem scenario_nodes:
  "map (\<lambda>n. (name n, time n, count n, tot_time n, pct_total n))
     (fst (projr (process_profile
        (one_file [''A 1 2.0'', ''A@B 1 1.0'', ''$total 1 3.0'']) [''iprof.0'']))) =
     [(''A'', 2, 1, 2, 2 / 3), (''A@B'', 1, 1, 1, 1 / 3), (''$total'', 3, 1, 3, 1)]
   \<and> map (\<lambda>n. (name n, time n, count n, tot_time n, pct_total n))
     (fst (projr (process_profile
        (one_file [''A 1 2.0'', ''A@B 1 1.0'', ''$total 1 3.0'', ''A@$parent 1 1.0''])
        [''iprof.0'']))) =
     [(''A'', 0, 1, 2, 2 / 3), (''A@B'', 1, 1, 1, 1 / 3), (''$total'', 3, 1, 3, 1),
      (''A@$parent'', 1, 1, 0, 0)]
   \<and> isl (process_profile
        (one_file [''A 1 2.0'', ''A@B 1 1.0'', ''$total 1 3.0'', ''A@$parent 1 1.0''])
        [''iprof.0'']) = False"
  by code_simp

text \<open>Without decoration, the tree node of a record's path holds the time and the
  count of that record alone, whatever the tree held for the path before.\<close>

lemma add_record_replaces:
  assumes "add_record 1 dec (tree, totals) (p, c, t) = Inr (tree', totals')"
  shows "map_option (\<lambda>n. (time n, count n)) (map_of tree' p) = Some (t, c)"
  using assms
  by (auto simp: add_record_def prof_node_def Let_def update_conv split_at_nonempty
      split: if_splits sum.splits option.splits)

text \<open>
  Claim C4 fails on the code. On the raw file with the records \<open>A 1 2.0\<close>, \<open>A 1 1.0\<close>
  and \<open>$total 1 3.0\<close>, the tree node \<open>A\<close> has the time 1 and the count 1 of the last
  record, not the sums 3 and 2, which its own \<open>tot_time\<close> and \<open>tot_count\<close> hold.
\<close>

theorem duplicate_path_last_record_wins:
  "process_profile (one_file [''A 1 2.0'', ''A 1 1.0'', ''$total 1 3.0'']) [''iprof.0''] =
     Inr ([\<lparr>name = ''A'', short_name = ''A'', time = 1, count = 1, tot_time = 3,
             tot_count = 2, pct_total = 1 / 3, tot_pct_total = 1, pct_parent = 1\<rparr>,
           \<lparr>name = ''$total'', short_name = ''$total'', time = 3, count = 1, tot_time = 3,
             tot_count = 1, pct_total = 1, tot_pct_total = 1, pct_parent = 1\<rparr>],
          [(''A'', \<lparr>name = ''A'', short_name = ''A'', time = 0, count = 0, tot_time = 3,
                    tot_count = 2, pct_total = 0, tot_pct_total = 0, pct_parent = 0,
                    child_time = 0, obj = None\<rparr>),
           (''$total'', \<lparr>name = ''$total'', short_name = ''$total'', time = 0, count = 0,
                    tot_time = 3, tot_count = 1, pct_total = 0, tot_pct_total = 0,
                    pct_parent = 0, child_time = 0, obj = None\<rparr>)])"
  by code_simp

lemma py_int_empty: "isl (py_int [])"
  by (simp add: py_int_def strip_def sign_split_def)

lemma dec_of_dot: "dec_of f = Some ext \<Longrightarrow> CHR ''.'' \<in> set ext"
  by (auto simp: dec_of_def splitext_def lstrip_def Let_def py_int_def strip_def sign_split_def
      split: sum.splits if_splits)

lemma join_contains:
  "xs \<noteq> [] \<Longrightarrow> list_all (\<lambda>x. c \<in> set x) xs \<Longrightarrow> c \<in> set (join sep xs)"
  by (induction sep xs rule: join.induct) auto

lemma dotted_update:
  "dotted d \<Longrightarrow> CHR ''.'' \<in> set k \<Longrightarrow> dotted (AList.update k v d)"
  by (induction d) (auto simp: dotted_def)

lemma add_record_dotted:
  assumes "add_record n (Some ext) (tree, totals) r = Inr (tree', totals')"
    and "1 < n" and "CHR ''.'' \<in> set ext" and "dotted tree"
  shows "dotted tree'"
proof -
  obtain p c t where r: "r = (p, c, t)" by (cases r)
  let ?parts = "map (\<lambda>x. x @ ext) (split_at CHR ''@'' p)"
  have ne: "?parts \<noteq> []" by (simp add: split_at_nonempty)
  have "list_all (\<lambda>x. CHR ''.'' \<in> set x) ?parts"
    using assms(3) by (simp add: list_all_iff)
  with ne have key: "CHR ''.'' \<in> set (join ''@'' ?parts)"
    by (rule join_contains)
  from assms(3) have e: "ext \<noteq> []" by auto
  from assms(1) r e assms(2) ne obtain nd where
    "tree' = AList.update (join ''@'' ?parts) nd tree"
    by (auto simp: add_record_def prof_node_def Let_def split: if_splits sum.splits option.splits)
  with key assms(4) show ?thesis
    by (simp add: dotted_update)
qed

lemma add_records_dotted:
  "add_records n (Some ext) st rs = Inr st' \<Longrightarrow> 1 < n \<Longrightarrow> CHR ''.'' \<in> set ext \<Longrightarrow>
   dotted (fst st) \<Longrightarrow> dotted (fst st')"
proof (induction rs arbitrary: st)
  case Nil
  then show ?case by simp
next
  case (Cons r rs)
  from Cons.prems(1) obtain st1 where s1: "add_record n (Some ext) st r = Inr st1"
    and s2: "add_records n (Some ext) st1 rs = Inr st'"
    by (auto split: sum.splits)
  from s1 Cons.prems have "dotted (fst st1)"
    using add_record_dotted [of n ext "fst st" "snd st" r "fst st1" "snd st1"] by simp
  with s2 Cons show ?case by blast
qed

lemma read_files_dotted:
  "read_files fs n st flist = Inr st' \<Longrightarrow> 1 < n \<Longrightarrow>
   list_all (\<lambda>f. dec_of f \<noteq> None) flist \<Longrightarrow> dotted (fst st) \<Longrightarrow> dotted (fst st')"
proof (induction flist arbitrary: st)
  case Nil
  then show ?case by simp
next
  case (Cons f flist)
  from Cons.prems(3) obtain ext where ext: "dec_of f = Some ext" by auto
  from Cons.prems(1) ext obtain st1 where
    s1: "add_records n (Some ext) st (fst (iter_raw_prof_file fs f)) = Inr st1"
    and s2: "read_files fs n st1 flist = Inr st'"
    by (auto split: sum.splits option.splits)
  from s1 Cons.prems(2) dec_of_dot [OF ext] Cons.prems(4) have "dotted (fst st1)"
    by (rule add_records_dotted)
  with s2 Cons show ?case by simp
qed

lemma pct_pass_keys: "pct_pass tree totals items = Inr out \<Longrightarrow> map fst out = map fst items"
  by (induction items arbitrary: out) (auto split: sum.splits)

lemma dotted_no_total: "dotted d \<Longrightarrow> map fst d1 = map fst d \<Longrightarrow> map_of d1 ''$total'' = None"
proof -
  assume d: "dotted d" and k: "map fst d1 = map fst d"
  have "''$total'' \<notin> set (map fst d)"
  proof
    assume "''$total'' \<in> set (map fst d)"
    then obtain b where "(''$total'', b) \<in> set d"
      by auto
    with d have "CHR ''.'' \<in> set (fst (''$total'', b))"
      unfolding dotted_def list_all_iff by blast
    then show False by simp
  qed
  with k have "''$total'' \<notin> fst ` set d1"
    by (metis set_map)
  then show ?thesis
    by (simp add: map_of_eq_None_iff)
qed

text \<open>With two or more files that all have an integer extension, every key of the
  tree is decorated, no key is \<open>$total\<close>, and \<open>process_profile\<close> cannot return.\<close>

lemma ranked_files_never_merge:
  assumes "1 < length flist"
    and "list_all (\<lambda>f. dec_of f \<noteq> None) flist"
  shows "isl (process_profile fs flist)"
proof (cases "read_files fs (length flist) ([], []) flist")
  case (Inl e)
  then show ?thesis by (simp add: process_profile_def)
next
  case (Inr st)
  obtain tree totals where st: "st = (tree, totals)" by (cases st)
  have "dotted (fst ([], []))" by (simp add: dotted_def)
  with Inr assms have dt: "dotted tree"
    using read_files_dotted [of fs "length flist" "([], [])" flist st] st by simp
  show ?thesis
  proof (cases "pct_pass tree totals tree")
    case (Inl e)
    with Inr st show ?thesis by (simp add: process_profile_def)
  next
    case inner: (Inr tree1)
    then have "map fst tree1 = map fst tree" by (rule pct_pass_keys)
    with dt have "map_of tree1 ''$total'' = None" by (rule dotted_no_total)
    with Inr st inner show ?thesis
      by (simp add: process_profile_def getitem_def)
  qed
qed

text \<open>
  Claim C1 fails on the code. On the two raw files \<open>iprof.0\<close> and \<open>iprof.1\<close>, with
  the root records \<open>$total 1 1.0\<close> and \<open>$total 1 2.0\<close>, \<open>process_profile\<close> returns
  no tree: the roots are stored under \<open>$total.0\<close> and \<open>$total.1\<close>, and the percentage
  loop looks up \<open>$total\<close>.
\<close>

theorem ranked_files_raise_key_error:
  "process_profile (two_files [''$total 1 1.0''] [''$total 1 2.0'']) [''iprof.0'', ''iprof.1'']
     = Inl (KeyError ''$total'')"
  by code_simp

section \<open>The tracker\<close>

text \<open>
  Claim C5, as the code has it. A return event of a matched function is never compared
  with the top of the call-site stack: whenever both stacks are non-empty, it pops both
  and adds the elapsed time and one count to the node of the path joined from the whole
  stack as it was, whatever the token of the returning frame; it does not raise.
\<close>

theorem return_pops_any_token:
  assumes "matched_self s f = Some ob"
    and "call_stack s \<noteq> []"
    and "timing_stack s \<noteq> []"
  shows "instance_profile now s f Return =
           Returned
             (s\<lparr>call_stack := butlast (call_stack s),
                timing_stack := butlast (timing_stack s),
                inst_data :=
                  AList.update (join ''@'' (call_stack s))
                    ((path_node s ob)
                       \<lparr>time := time (path_node s ob) + (now - last (timing_stack s)),
                        count := count (path_node s ob) + 1\<rparr>)
                    (inst_data s)\<rparr>)"
proof (cases "map_of (inst_data s) (join ''@'' (call_stack s))")
  case None
  with assms show ?thesis
    by (simp add: instance_profile_def prof_node_def getitem_def path_node_def update_conv
        update_update Let_def)
next
  case (Some n)
  with assms show ?thesis
    by (simp add: instance_profile_def getitem_def path_node_def Let_def)
qed

lemma group_frame_matched: "matched_self nested_state group_frame = Some group_obj"
  by (simp add: matched_self_def nested_state_def active_state_def group_frame_def
      group_obj_def)

theorem return_pops_any_token_witness:
  "matched_self nested_state group_frame = Some group_obj
   \<and> call_stack nested_state \<noteq> []
   \<and> timing_stack nested_state \<noteq> []
   \<and> instance_profile 5 nested_state group_frame Return =
       Returned
         (nested_state
            \<lparr>call_stack := butlast (call_stack nested_state),
             timing_stack := butlast (timing_stack nested_state),
             inst_data :=
               AList.update (join ''@'' (call_stack nested_state))
                 ((path_node nested_state group_obj)
                    \<lparr>time := time (path_node nested_state group_obj)
                              + (5 - last (timing_stack nested_state)),
                     count := count (path_node nested_state group_obj) + 1\<rparr>)
                 (inst_data nested_state)\<rparr>)"
proof -
  have h2: "call_stack nested_state \<noteq> []"
    by (simp add: nested_state_def)
  have h3: "timing_stack nested_state \<noteq> []"
    by (simp add: nested_state_def)
  from return_pops_any_token [OF group_frame_matched h2 h3, of 5] group_frame_matched h2 h3
  show ?thesis by simp
qed

text \<open>
  Claim C5 as stated fails. The stack holds the root, \<open>solve\<close> of the group and, on
  top, \<open>solve\<close> of the component. The return event of the group's \<open>solve\<close>, whose
  token is not the top of the stack, pops the component's entry and records 2 seconds
  and one call for the component's path, on the group object; nothing is raised.
\<close>

theorem out_of_order_return_counterexample:
  "token group_frame group_obj = ''g.py#10#7#solve''
   \<and> last (call_stack nested_state) = ''c.py#20#8#solve''
   \<and> instance_profile 5 nested_state group_frame Return =
       Returned
         (nested_state
            \<lparr>call_stack := [''$total'', ''g.py#10#7#solve''],
             timing_stack := [2],
             inst_data :=
               [(''$total'', total_node),
                (''$total@g.py#10#7#solve@c.py#20#8#solve'',
                 \<lparr>name = ''$total@g.py#10#7#solve@c.py#20#8#solve'',
                   short_name = ''c.py#20#8#solve'', time = 2, count = 1, tot_time = 0,
                   tot_count = 0, pct_total = 0, tot_pct_total = 0, pct_parent = 0,
                   child_time = 0, obj = Some group_obj\<rparr>)]\<rparr>)"
  by code_simp

text \<open>
  Claim C6, as the code has it. Calling \<open>start()\<close> while a session is active prints
  \<open>profiling is already active.\<close> and returns: nothing is raised and no global
  changes. Calling \<open>stop()\<close> with no active session returns and changes nothing.
\<close>

theorem start_active_stop_idle:
  "(profile_start s \<noteq> None \<longrightarrow>
      start env now s = Returned (s\<lparr>printed := printed s @ [''profiling is already active.'']\<rparr>))
   \<and> (profile_start s = None \<longrightarrow> stop now s = Returned s)"
  by (simp add: start_def stop_def)

theorem start_active_stop_idle_witness:
  "profile_start active_state \<noteq> None
   \<and> start demo_env 2 active_state =
       Returned (active_state\<lparr>printed := printed active_state @ [''profiling is already active.'']\<rparr>)
   \<and> profile_start idle_state = None
   \<and> stop 2 idle_state = Returned idle_state"
proof -
  have h1: "profile_start active_state \<noteq> None"
    by (simp add: active_state_def)
  have h2: "profile_start idle_state = None"
    by (simp add: idle_state_def)
  from start_active_stop_idle [of active_state demo_env 2] start_active_stop_idle [of idle_state demo_env 2]
    h1 h2
  show ?thesis by simp
qed

text \<open>
  Claim C6 as stated fails: in a state with an active session, \<open>start()\<close> returns; it
  does not fail with an error.
\<close>

theorem start_while_active_counterexample:
  "start demo_env 2 active_state =
     Returned (active_state\<lparr>printed := [''profiling is already active.'']\<rparr>)"
  by (simp add: start_def active_state_def)

text \<open>
  Claim C10. When \<open>start()\<close> finds that another profile function is registered, with
  no session active and the set-up done or succeeding, it raises only after it has
  written the globals: the session start time is recorded and the root token
  \<open>$total\<close> is on the call stack (and the root node in \<open>_inst_data\<close>), so the state
  is not the one before the call.
\<close>

theorem start_raises_after_writes:
  assumes "profile_start s = None"
    and "sys_profile s \<noteq> None"
    and "profile_setup s \<or> \<not> open_fails env"
  shows "\<exists>s'. start env now s =
                 Raised (RuntimeError ''another profile function is already active.'') s'
              \<and> profile_start s' = Some now
              \<and> call_stack s' = call_stack s @ [''$total'']
              \<and> map_of (inst_data s') ''$total'' \<noteq> None
              \<and> s' \<noteq> s"
proof -
  let ?s1 = "if profile_setup s then s
             else s\<lparr>profile_setup := True, profile_matches := default_matches env\<rparr>"
  let ?s' = "?s1\<lparr>profile_start := Some now, call_stack := call_stack s @ [''$total''],
               inst_data :=
                 (if map_of (inst_data s) ''$total'' \<noteq> None then inst_data s
                  else AList.update ''$total'' (projr (prof_node [''$total''] None))
                         (inst_data s))\<rparr>"
  have run: "start env now s =
      Raised (RuntimeError ''another profile function is already active.'') ?s'"
    using assms by (auto simp: start_def setup_profiling_def prof_node_def Let_def)
  have st: "profile_start ?s' = Some now" by simp
  have cs: "call_stack ?s' = call_stack s @ [''$total'']" by simp
  have tot: "map_of (inst_data ?s') ''$total'' \<noteq> None" by (simp add: update_conv)
  have "?s' \<noteq> s"
  proof
    assume "?s' = s"
    then have "profile_start ?s' = profile_start s" by (rule arg_cong)
    with st assms(1) show False by simp
  qed
  with run st cs tot show ?thesis by blast
qed

theorem start_raises_after_writes_witness:
  "profile_start foreign_state = None
   \<and> sys_profile foreign_state \<noteq> None
   \<and> profile_setup foreign_state
   \<and> (\<exists>s'. start demo_env 1 foreign_state =
              Raised (RuntimeError ''another profile function is already active.'') s'
            \<and> profile_start s' = Some 1
            \<and> call_stack s' = call_stack foreign_state @ [''$total'']
            \<and> map_of (inst_data s') ''$total'' \<noteq> None
            \<and> s' \<noteq> foreign_state)"
proof -
  have h1: "profile_start foreign_state = None"
    by (simp add: foreign_state_def idle_state_def)
  have h2: "sys_profile foreign_state \<noteq> None"
    by (simp add: foreign_state_def)
  have h3: "profile_setup foreign_state"
    by (simp add: foreign_state_def idle_state_def)
  then have h3': "profile_setup foreign_state \<or> \<not> open_fails demo_env"
    by simp
  from start_raises_after_writes [OF h1 h2 h3', of 1] h1 h2 h3 show ?thesis
    by blast
qed

end
